theory Spec2Isabelle
  imports Main
begin

section \<open>Data model of the version management panel\<close>

text \<open>
  The component of \<^verbatim>\<open>src/components/project-details/VersionManagement.tsx\<close> keeps a
  dialog flag, the version being edited and a two-field draft, and talks to four
  collaborators: the platform's \<^verbatim>\<open>URL\<close> constructor, the authentication provider,
  the persistence adapter \<^verbatim>\<open>db.query\<close> and the caller's refresh callback. The
  collaborators are not part of the file; they are parameters of the model (record
  \<open>env\<close>), and every call to one of them is recorded, in program order, in the list of
  events a handler returns next to the new state. A run of a handler is modelled on its
  own: nothing else changes the state cells while it waits for a collaborator.
\<close>

text \<open>JavaScript values stored in a query payload.\<close>

datatype jsval = JNull | JStr string | JNum int | JBool bool

text \<open>
  A version row as the caller supplies it (\<^verbatim>\<open>versions: any[]\<close>): the fields the component
  reads, the two links \<^verbatim>\<open>null\<close> or a string. \<^verbatim>\<open>version_number\<close> is a JavaScript number
  holding an integer: an IEEE double, kept here as the integer it denotes.
\<close>

record version =
  id_v :: string
  project_id :: string
  version_number :: int
  preview_url :: "string option"
  final_url :: "string option"
  uploaded_by :: string
  is_approved :: bool
  created_at :: string
  updated_at :: string

text \<open>The draft \<^verbatim>\<open>formData\<close>: fields \<^verbatim>\<open>preview_url\<close> and \<^verbatim>\<open>final_url\<close>.\<close>

record form_data =
  form_preview_url :: string
  form_final_url :: string

record props =
  projectId :: string
  versions :: "version list"
  userRole :: "string option"

text \<open>The three \<^verbatim>\<open>useState\<close> cells.\<close>

record state =
  dialogOpen :: bool
  editingVersion :: "version option"
  formData :: form_data

datatype operation = OpInsert | OpUpdate | OpDelete

text \<open>
  The argument object of \<^verbatim>\<open>db.query\<close>. The selector \<^verbatim>\<open>where\<close> and the payload
  \<^verbatim>\<open>data\<close> are objects, kept as lists of key and value in the order written; a key the
  call does not pass is \<open>None\<close>.
\<close>

record query =
  collection :: string
  operation :: operation
  where_sel :: "(string \<times> jsval) list option"
  data :: "(string \<times> jsval) list option"

text \<open>What \<^verbatim>\<open>supabase.auth.getUser()\<close> can do: resolve a user (its id), resolve none, or throw.\<close>

datatype auth_result = User string | NoUser | GetUserThrows

text \<open>
  The collaborators. \<open>new_URL s\<close> is True when \<^verbatim>\<open>new URL(s)\<close> returns and False when it
  throws; \<open>db_query q\<close> is True when the call resolves and False when it rejects;
  \<open>Date_now\<close> is the text of \<^verbatim>\<open>new Date().toISOString()\<close>; \<open>onVersionsUpdate_ok\<close> is
  False when the caller's callback throws.
\<close>

record env =
  new_URL :: "string \<Rightarrow> bool"
  auth_getUser :: auth_result
  db_query :: "query \<Rightarrow> bool"
  Date_now :: string
  onVersionsUpdate_ok :: bool

datatype event =
    PreventDefault
  | NewURL string
  | ToastError string
  | ToastSuccess string
  | GetUser
  | DbQuery query
  | OnVersionsUpdate
  | ConsoleError string

section \<open>The handlers\<close>

text \<open>\<^verbatim>\<open>isValidUrl\<close> (lines 131-138): try the constructor, True if it returns.\<close>

definition isValidUrl :: "env \<Rightarrow> string \<Rightarrow> bool" where
  "isValidUrl E url = (if new_URL E url then True else False)"

text \<open>
  The guard \<^verbatim>\<open>s && !isValidUrl(s)\<close> of lines 34 and 38: a string is truthy when it is not
  empty, and \<^verbatim>\<open>&&\<close> evaluates its right side only then, so \<open>url_calls s\<close> are the
  constructor calls the guard makes.
\<close>

definition url_rejected :: "env \<Rightarrow> string \<Rightarrow> bool" where
  "url_rejected E s = (s \<noteq> [] \<and> \<not> isValidUrl E s)"

definition url_calls :: "string \<Rightarrow> event list" where
  "url_calls s = (if s \<noteq> [] then [NewURL s] else [])"

text \<open>\<^verbatim>\<open>s || null\<close>: the string when it is not empty, \<^verbatim>\<open>null\<close> otherwise.\<close>

definition or_null :: "string \<Rightarrow> jsval" where
  "or_null s = (if s \<noteq> [] then JStr s else JNull)"

text \<open>
  Arithmetic on JavaScript numbers is IEEE double arithmetic: \<^verbatim>\<open>x + y\<close> is the exact sum
  rounded to the nearest double, a tie going to the double whose significand is even.
  A double has a significand of 53 bits, so every integer of magnitude up to \<open>2 ^ 53\<close> is
  a double; a larger one is rounded to 53 significant bits: \<open>e\<close> low bits are dropped,
  \<open>q\<close> is the significand kept, \<open>r\<close> the part dropped and \<open>h\<close> half a unit of the last
  place kept. (A sum of two doubles of which one is 1 stays below the range where the
  result would be \<^verbatim>\<open>Infinity\<close>.)
\<close>

function bit_length :: "int \<Rightarrow> nat" where
  "bit_length n = (if n \<le> 0 then 0 else Suc (bit_length (n div 2)))"
  by pat_completeness auto
termination
  by (relation "measure nat") auto

declare bit_length.simps [simp del]

definition double_round :: "int \<Rightarrow> int" where
  "double_round n =
     (let a = \<bar>n\<bar> in
      if a \<le> 2 ^ 53 then n
      else
        (let e = bit_length a - 53;
             q = a div 2 ^ e;
             r = a mod 2 ^ e;
             h = 2 ^ (e - 1);
             m = (if r < h then q else if h < r then q + 1 else if even q then q else q + 1)
         in sgn n * (m * 2 ^ e)))"

definition js_add :: "int \<Rightarrow> int \<Rightarrow> int" where
  "js_add x y = double_round (x + y)"

text \<open>
  Lines 62-64: \<^verbatim>\<open>versions.length > 0 ? Math.max(...versions.map(v => v.version_number)) + 1 : 1\<close>.
  \<open>Math_max x xs\<close> is \<^verbatim>\<open>Math.max\<close> on the arguments \<open>x, xs\<close>, taken left to right; it
  returns one of its arguments, so it does not round.
\<close>

definition Math_max :: "int \<Rightarrow> int list \<Rightarrow> int" where
  "Math_max x xs = fold max xs x"

fun nextVersionNumber :: "version list \<Rightarrow> int" where
  "nextVersionNumber [] = 1"
| "nextVersionNumber (v # vs) = js_add (Math_max (version_number v) (map version_number vs)) 1"

definition update_query :: "env \<Rightarrow> version \<Rightarrow> form_data \<Rightarrow> query" where
  "update_query E v fd =
     \<lparr>collection = ''video_versions'', operation = OpUpdate,
      where_sel = Some [(''id'', JStr (id_v v))],
      data = Some [(''preview_url'', or_null (form_preview_url fd)),
                   (''final_url'', or_null (form_final_url fd)),
                   (''updated_at'', JStr (Date_now E))]\<rparr>"

definition insert_query :: "props \<Rightarrow> string \<Rightarrow> form_data \<Rightarrow> query" where
  "insert_query P uid fd =
     \<lparr>collection = ''video_versions'', operation = OpInsert,
      where_sel = None,
      data = Some [(''project_id'', JStr (projectId P)),
                   (''version_number'', JNum (nextVersionNumber (versions P))),
                   (''preview_url'', or_null (form_preview_url fd)),
                   (''final_url'', or_null (form_final_url fd)),
                   (''uploaded_by'', JStr uid),
                   (''is_approved'', JBool False)]\<rparr>"

text \<open>
  Lines 81-84, reached after a write that resolved: the three setters, then the caller's
  callback, which is the last call of the \<^verbatim>\<open>try\<close> block and may throw.
\<close>

definition submit_done :: "env \<Rightarrow> state \<Rightarrow> event list \<Rightarrow> state \<times> event list \<times> bool" where
  "submit_done E S tr =
     (S\<lparr>dialogOpen := False, editingVersion := None,
        formData := \<lparr>form_preview_url = [], form_final_url = []\<rparr>\<rparr>,
      tr @ [OnVersionsUpdate],
      \<not> onVersionsUpdate_ok E)"

text \<open>
  The \<^verbatim>\<open>try\<close> block of \<^verbatim>\<open>handleSubmit\<close> (lines 44-84): the new state, the calls made,
  and whether the block threw. \<^verbatim>\<open>editingVersion\<close> is \<^verbatim>\<open>null\<close> or a row, so it is truthy
  exactly when it is a row.
\<close>

definition handleSubmit_try :: "env \<Rightarrow> props \<Rightarrow> state \<Rightarrow> state \<times> event list \<times> bool" where
  "handleSubmit_try E P S =
     (case auth_getUser E of
        GetUserThrows \<Rightarrow> (S, [GetUser], True)
      | NoUser \<Rightarrow> (S, [GetUser], False)
      | User uid \<Rightarrow>
          (case editingVersion S of
             Some v \<Rightarrow>
               (let q = update_query E v (formData S) in
                if \<not> db_query E q then (S, [GetUser, DbQuery q], True)
                else submit_done E S
                       [GetUser, DbQuery q, ToastSuccess ''Version updated successfully''])
           | None \<Rightarrow>
               (let q = insert_query P uid (formData S) in
                if \<not> db_query E q then (S, [GetUser, DbQuery q], True)
                else submit_done E S
                       [GetUser, DbQuery q, ToastSuccess ''New version created successfully''])))"

text \<open>\<^verbatim>\<open>handleSubmit\<close> (lines 30-89), with the \<^verbatim>\<open>catch\<close> of lines 85-88.\<close>

definition handleSubmit :: "env \<Rightarrow> props \<Rightarrow> state \<Rightarrow> state \<times> event list" where
  "handleSubmit E P S =
     (let p = form_preview_url (formData S); f = form_final_url (formData S) in
      if url_rejected E p
      then (S, [PreventDefault] @ url_calls p @ [ToastError ''Please enter a valid preview URL''])
      else if url_rejected E f
      then (S, [PreventDefault] @ url_calls p @ url_calls f
                 @ [ToastError ''Please enter a valid final URL''])
      else (case handleSubmit_try E P S of
              (S', tr, threw) \<Rightarrow>
                (S', [PreventDefault] @ url_calls p @ url_calls f @ tr
                       @ (if threw
                          then [ConsoleError ''Error saving version:'',
                                ToastError ''Failed to save version'']
                          else []))))"

text \<open>\<^verbatim>\<open>handleApprove\<close> (lines 115-129); it changes no state cell.\<close>

definition approve_query :: "string \<Rightarrow> query" where
  "approve_query versionId =
     \<lparr>collection = ''video_versions'', operation = OpUpdate,
      where_sel = Some [(''id'', JStr versionId)],
      data = Some [(''is_approved'', JBool True)]\<rparr>"

definition handleApprove :: "env \<Rightarrow> string \<Rightarrow> event list" where
  "handleApprove E versionId =
     (let q = approve_query versionId;
          failed = [ConsoleError ''Error approving version:'',
                    ToastError ''Failed to approve version'']
      in if \<not> db_query E q then [DbQuery q] @ failed
         else [DbQuery q, ToastSuccess ''Version approved successfully'', OnVersionsUpdate]
                @ (if onVersionsUpdate_ok E then [] else failed))"

section \<open>The row actions\<close>

text \<open>
  The buttons of the actions cell (lines 266-308). \<^verbatim>\<open>c && <Button/>\<close> renders the
  button when \<open>c\<close> holds and nothing otherwise; the table is rendered only for a list
  that is not empty (line 202).
\<close>

datatype action = ApproveButton string | EditButton version | DeleteButton string

definition row_actions :: "props \<Rightarrow> version \<Rightarrow> action list" where
  "row_actions P v =
     (if \<not> is_approved v \<and> userRole P = Some ''client'' then [ApproveButton (id_v v)] else [])
     @ [EditButton v, DeleteButton (id_v v)]"

definition table_rows :: "props \<Rightarrow> (version \<times> action list) list" where
  "table_rows P =
     (if length (versions P) = 0 then [] else map (\<lambda>v. (v, row_actions P v)) (versions P))"

section \<open>Reading a trace\<close>

fun queries :: "event list \<Rightarrow> query list" where
  "queries [] = []"
| "queries (DbQuery q # es) = q # queries es"
| "queries (e # es) = queries es"

fun is_notification :: "event \<Rightarrow> bool" where
  "is_notification (ToastError m) = True"
| "is_notification (ToastSuccess m) = True"
| "is_notification e = False"

definition notifications :: "event list \<Rightarrow> event list" where
  "notifications es = filter is_notification es"

text \<open>The two notifications of the validation guards (lines 35 and 39) in a trace.\<close>

definition validation_errors :: "event list \<Rightarrow> event list" where
  "validation_errors es =
     filter (\<lambda>e. e = ToastError ''Please enter a valid preview URL''
                 \<or> e = ToastError ''Please enter a valid final URL'') es"

text \<open>The value a query writes under a key of its payload, if it writes the key.\<close>

definition written :: "query \<Rightarrow> string \<Rightarrow> jsval option" where
  "written q k = (case data q of None \<Rightarrow> None | Some d \<Rightarrow> map_of d k)"

definition written_keys :: "query \<Rightarrow> string list" where
  "written_keys q = (case data q of None \<Rightarrow> [] | Some d \<Rightarrow> map fst d)"

section \<open>Sample collaborators and rows\<close>

text \<open>
  Concrete inputs for evaluating the handlers: a constructor that accepts exactly the
  strings longer than the prefix \<^verbatim>\<open>https://\<close> that start with it, a store that accepts
  every call, and rows numbered as given.
\<close>

definition sample_new_URL :: "string \<Rightarrow> bool" where
  "sample_new_URL s = (take 8 s = ''https://'' \<and> 8 < length s)"

definition sample_env :: "auth_result \<Rightarrow> bool \<Rightarrow> env" where
  "sample_env u ok =
     \<lparr>new_URL = sample_new_URL, auth_getUser = u, db_query = (\<lambda>q. ok),
      Date_now = ''2024-01-01T00:00:00.000Z'', onVersionsUpdate_ok = True\<rparr>"

definition sample_version :: "int \<Rightarrow> bool \<Rightarrow> version" where
  "sample_version n appr =
     \<lparr>id_v = ''v'', project_id = ''p'', version_number = n,
      preview_url = None, final_url = None, uploaded_by = ''u'', is_approved = appr,
      created_at = ''2024-01-01T00:00:00.000Z'', updated_at = ''2024-01-01T00:00:00.000Z''\<rparr>"

definition sample_props :: "int list \<Rightarrow> props" where
  "sample_props ns =
     \<lparr>projectId = ''p'', versions = map (\<lambda>n. sample_version n False) ns,
      userRole = Some ''client''\<rparr>"

definition sample_state :: "version option \<Rightarrow> string \<Rightarrow> string \<Rightarrow> state" where
  "sample_state ev p f =
     \<lparr>dialogOpen = True, editingVersion = ev,
      formData = \<lparr>form_preview_url = p, form_final_url = f\<rparr>\<rparr>"

section \<open>Shared lemmas\<close>

lemma Math_max_Max: "Math_max x xs = Max (insert x (set xs))"
  using Max.set_eq_fold [of x xs] by (simp add: Math_max_def)

lemma double_round_exact: "\<bar>n\<bar> \<le> 2 ^ 53 \<Longrightarrow> double_round n = n"
  by (simp add: double_round_def Let_def)

lemma js_add_one_exact: "- (2 ^ 53) \<le> m \<Longrightarrow> m < 2 ^ 53 \<Longrightarrow> js_add m 1 = m + 1"
  unfolding js_add_def by (rule double_round_exact) simp

lemma nextVersionNumber_Max:
  "nextVersionNumber vs = (if vs = [] then 1 else js_add (Max (version_number ` set vs)) 1)"
  by (cases vs) (simp_all add: Math_max_Max)

lemma queries_append: "queries (xs @ ys) = queries xs @ queries ys"
  by (induction xs rule: queries.induct) simp_all

lemma queries_url_calls: "queries (url_calls s) = []"
  by (simp add: url_calls_def)


lemma queries_url_calls2: "queries (url_calls p @ url_calls f @ es) = queries es"
  by (simp add: url_calls_def)

lemma notifications_url_calls: "notifications (url_calls p @ es) = notifications es"
  by (simp add: url_calls_def notifications_def)

lemma not_rejected_empty: "\<not> url_rejected E []"
  by (simp add: url_rejected_def)

lemma handleSubmit_rejected_preview:
  assumes "url_rejected E (form_preview_url (formData S))"
  shows "handleSubmit E P S =
           (S, [PreventDefault, NewURL (form_preview_url (formData S)),
                ToastError ''Please enter a valid preview URL''])"
  using assms by (simp add: handleSubmit_def Let_def url_calls_def url_rejected_def)

lemma handleSubmit_rejected_final:
  assumes "\<not> url_rejected E (form_preview_url (formData S))"
    and "url_rejected E (form_final_url (formData S))"
  shows "handleSubmit E P S =
           (S, PreventDefault # url_calls (form_preview_url (formData S))
                 @ [NewURL (form_final_url (formData S)),
                    ToastError ''Please enter a valid final URL''])"
  using assms by (simp add: handleSubmit_def Let_def url_calls_def url_rejected_def)

lemma handleSubmit_passed:
  assumes "\<not> url_rejected E (form_preview_url (formData S))"
    and "\<not> url_rejected E (form_final_url (formData S))"
  shows "handleSubmit E P S =
           (case handleSubmit_try E P S of
              (S', tr, threw) \<Rightarrow>
                (S', PreventDefault # url_calls (form_preview_url (formData S))
                       @ url_calls (form_final_url (formData S)) @ tr
                       @ (if threw
                          then [ConsoleError ''Error saving version:'',
                                ToastError ''Failed to save version'']
                          else [])))"
  using assms by (simp add: handleSubmit_def Let_def)

lemma handleSubmit_try_create:
  assumes "auth_getUser E = User uid" and "editingVersion S = None"
  shows "handleSubmit_try E P S =
           (if \<not> db_query E (insert_query P uid (formData S))
            then (S, [GetUser, DbQuery (insert_query P uid (formData S))], True)
            else submit_done E S
                   [GetUser, DbQuery (insert_query P uid (formData S)),
                    ToastSuccess ''New version created successfully''])"
  using assms by (simp add: handleSubmit_try_def Let_def)

lemma handleSubmit_try_update:
  assumes "auth_getUser E = User uid" and "editingVersion S = Some v"
  shows "handleSubmit_try E P S =
           (if \<not> db_query E (update_query E v (formData S))
            then (S, [GetUser, DbQuery (update_query E v (formData S))], True)
            else submit_done E S
                   [GetUser, DbQuery (update_query E v (formData S)),
                    ToastSuccess ''Version updated successfully''])"
  using assms by (simp add: handleSubmit_try_def Let_def)

lemma queries_handleSubmit_create:
  assumes "\<not> url_rejected E (form_preview_url (formData S))"
    and "\<not> url_rejected E (form_final_url (formData S))"
    and "auth_getUser E = User uid" and "editingVersion S = None"
  shows "queries (snd (handleSubmit E P S)) = [insert_query P uid (formData S)]"
  by (simp add: handleSubmit_passed [OF assms(1,2)] handleSubmit_try_create [OF assms(3,4)]
      submit_done_def queries_url_calls2)

lemma queries_handleSubmit_update:
  assumes "\<not> url_rejected E (form_preview_url (formData S))"
    and "\<not> url_rejected E (form_final_url (formData S))"
    and "auth_getUser E = User uid" and "editingVersion S = Some v"
  shows "queries (snd (handleSubmit E P S)) = [update_query E v (formData S)]"
  by (simp add: handleSubmit_passed [OF assms(1,2)] handleSubmit_try_update [OF assms(3,4)]
      submit_done_def queries_url_calls2)

lemma written_or_null:
  "or_null s \<noteq> JStr []" "s = [] \<Longrightarrow> or_null s = JNull" "s \<noteq> [] \<Longrightarrow> or_null s = JStr s"
  by (simp_all add: or_null_def)

lemma validation_errors_append:
  "validation_errors (xs @ ys) = validation_errors xs @ validation_errors ys"
  by (simp add: validation_errors_def)

lemma validation_errors_url_calls: "validation_errors (url_calls s) = []"
  by (simp add: validation_errors_def url_calls_def)

lemma validation_errors_catch:
  "validation_errors [ConsoleError ''Error saving version:'',
                      ToastError ''Failed to save version''] = []"
  by (simp add: validation_errors_def)

lemma validation_errors_preview:
  "validation_errors [ToastError ''Please enter a valid preview URL'']
     = [ToastError ''Please enter a valid preview URL'']"
  by (simp add: validation_errors_def)

lemma validation_errors_final:
  "validation_errors [ToastError ''Please enter a valid final URL'']
     = [ToastError ''Please enter a valid final URL'']"
  by (simp add: validation_errors_def)

lemma validation_errors_other:
  "validation_errors (PreventDefault # es) = validation_errors es"
  "validation_errors (NewURL s # es) = validation_errors es"
  "validation_errors (GetUser # es) = validation_errors es"
  "validation_errors (DbQuery q # es) = validation_errors es"
  "validation_errors (ToastSuccess m # es) = validation_errors es"
  "validation_errors (OnVersionsUpdate # es) = validation_errors es"
  "validation_errors [] = []"
  by (simp_all add: validation_errors_def)

lemma validation_errors_try: "validation_errors (fst (snd (handleSubmit_try E P S))) = []"
  by (simp add: handleSubmit_try_def submit_done_def validation_errors_other Let_def
      split: auth_result.splits option.splits)

lemmas sample_defs =
  sample_env_def sample_props_def sample_state_def sample_version_def sample_new_URL_def

section \<open>The next version number\<close>

text \<open>
  Claim C1, amended. On the create path (no version being edited, both draft fields past
  the validation guards, a user resolved) the component issues exactly one query. The
  \<^verbatim>\<open>version_number\<close> it writes is 1 for an empty list of versions; for a list that is
  not empty and whose greatest \<^verbatim>\<open>version_number\<close> \<open>m\<close> satisfies \<open>- 2 ^ 53 \<le> m < 2 ^ 53\<close>
  it is \<open>m + 1\<close>, the sum being exact in double arithmetic there. So is the number the
  code computes, for every such list; the list numbered 1, 2, 4 gives 5.
\<close>

theorem C1_next_version_number:
  assumes "editingVersion S = None"
    and "\<not> url_rejected E (form_preview_url (formData S))"
    and "\<not> url_rejected E (form_final_url (formData S))"
    and "auth_getUser E = User uid"
    and "versions P \<noteq> [] \<longrightarrow>
           - (2 ^ 53) \<le> Max (version_number ` set (versions P))
           \<and> Max (version_number ` set (versions P)) < 2 ^ 53"
  shows "map (\<lambda>q. written q ''version_number'') (queries (snd (handleSubmit E P S)))
           = [Some (JNum (if versions P = [] then 1
                          else Max (version_number ` set (versions P)) + 1))]
         \<and> nextVersionNumber (versions P)
           = (if versions P = [] then 1 else Max (version_number ` set (versions P)) + 1)"
proof -
  have q: "queries (snd (handleSubmit E P S)) = [insert_query P uid (formData S)]"
    using assms(1-4) by (simp add: queries_handleSubmit_create)
  have w: "written (insert_query P uid (formData S)) ''version_number''
             = Some (JNum (nextVersionNumber (versions P)))"
    by (simp add: written_def insert_query_def)
  have n: "nextVersionNumber (versions P)
             = (if versions P = [] then 1 else Max (version_number ` set (versions P)) + 1)"
    using assms(5) by (simp add: nextVersionNumber_Max js_add_one_exact)
  show ?thesis
    unfolding q using w n by simp
qed

theorem C1_next_version_number_witness:
  "map (\<lambda>q. written q ''version_number'')
     (queries (snd (handleSubmit (sample_env (User ''u1'') True) (sample_props [1, 2, 4])
                      (sample_state None ''https://example.com/a'' []))))
     = [Some (JNum 5)]
   \<and> nextVersionNumber (versions (sample_props [1, 2, 4])) = 5
   \<and> nextVersionNumber (versions (sample_props [])) = 1"
  using C1_next_version_number [of "sample_state None ''https://example.com/a'' []"
      "sample_env (User ''u1'') True" "''u1''" "sample_props [1, 2, 4]"]
    C1_next_version_number [of "sample_state None ''https://example.com/a'' []"
      "sample_env (User ''u1'') True" "''u1''" "sample_props []"]
  by (simp add: sample_defs url_rejected_def isValidUrl_def)

text \<open>
  Claim C1 as stated fails where the sum is not exact. For the one-row list whose
  \<^verbatim>\<open>version_number\<close> is \<open>2 ^ 53 = 9007199254740992\<close>, one more than the maximum is not a
  double; the sum rounds back to \<open>2 ^ 53\<close>, and the create path writes that number, which
  is already in the list.
\<close>

theorem C1_next_version_number_counterexample:
  "nextVersionNumber (versions (sample_props [9007199254740992])) = 9007199254740992
   \<and> nextVersionNumber (versions (sample_props [9007199254740992]))
       \<noteq> Max (version_number ` set (versions (sample_props [9007199254740992]))) + 1
   \<and> map (\<lambda>q. written q ''version_number'')
       (queries (snd (handleSubmit (sample_env (User ''u1'') True)
                        (sample_props [9007199254740992])
                        (sample_state None ''https://example.com/a'' []))))
     = [Some (JNum 9007199254740992)]"
proof -
  have r: "js_add 9007199254740992 1 = 9007199254740992"
    by code_simp
  have n: "nextVersionNumber (versions (sample_props [9007199254740992])) = 9007199254740992"
    by (simp add: sample_props_def sample_version_def Math_max_def r)
  have q: "queries (snd (handleSubmit (sample_env (User ''u1'') True)
                           (sample_props [9007199254740992])
                           (sample_state None ''https://example.com/a'' [])))
             = [insert_query (sample_props [9007199254740992]) ''u1''
                  (formData (sample_state None ''https://example.com/a'' []))]"
    by (rule queries_handleSubmit_create)
      (simp_all add: sample_defs url_rejected_def isValidUrl_def)
  have mx: "Max (version_number ` set (versions (sample_props [9007199254740992])))
              = 9007199254740992"
    by (simp add: sample_props_def sample_version_def)
  have w: "written (insert_query (sample_props [9007199254740992]) ''u1''
                      (formData (sample_state None ''https://example.com/a'' [])))
             ''version_number''
             = Some (JNum (nextVersionNumber (versions (sample_props [9007199254740992]))))"
    by (simp add: written_def insert_query_def)
  show ?thesis
    unfolding q mx by (simp add: n w)
qed

section \<open>The validation gate\<close>

text \<open>
  Claim C2. When the preview field or the final field of the draft is a non-empty string
  that the URL constructor refuses, \<^verbatim>\<open>handleSubmit\<close> leaves the whole component state
  (dialog flag, \<^verbatim>\<open>editingVersion\<close>, both draft fields) as it was, asks for no user, issues
  no query and calls no refresh, and shows exactly one notification: the preview error
  when the preview field is refused, the final error otherwise.
\<close>

theorem C2_invalid_url_blocks_submit:
  assumes "url_rejected E (form_preview_url (formData S))
           \<or> url_rejected E (form_final_url (formData S))"
  shows "fst (handleSubmit E P S) = S
         \<and> queries (snd (handleSubmit E P S)) = []
         \<and> GetUser \<notin> set (snd (handleSubmit E P S))
         \<and> OnVersionsUpdate \<notin> set (snd (handleSubmit E P S))
         \<and> notifications (snd (handleSubmit E P S))
           = [ToastError (if url_rejected E (form_preview_url (formData S))
                          then ''Please enter a valid preview URL''
                          else ''Please enter a valid final URL'')]"
proof (cases "url_rejected E (form_preview_url (formData S))")
  case True
  then show ?thesis
    by (simp add: handleSubmit_rejected_preview notifications_def)
next
  case False
  with assms have f: "url_rejected E (form_final_url (formData S))" by simp
  show ?thesis
    using False
    by (simp add: handleSubmit_rejected_final [OF False f] notifications_def url_calls_def)
qed

theorem C2_invalid_url_blocks_submit_witness:
  "url_rejected (sample_env (User ''u1'') True) ''not-a-url''
   \<and> handleSubmit (sample_env (User ''u1'') True) (sample_props [1])
        (sample_state (Some (sample_version 1 False)) ''https://example.com/a'' ''not-a-url'')
     = (sample_state (Some (sample_version 1 False)) ''https://example.com/a'' ''not-a-url'',
        [PreventDefault, NewURL ''https://example.com/a'', NewURL ''not-a-url'',
         ToastError ''Please enter a valid final URL''])
   \<and> notifications (snd (handleSubmit (sample_env (User ''u1'') True) (sample_props [1])
        (sample_state (Some (sample_version 1 False)) ''https://example.com/a'' ''not-a-url'')))
     = [ToastError ''Please enter a valid final URL'']"
  using C2_invalid_url_blocks_submit [of "sample_env (User ''u1'') True"
      "sample_state (Some (sample_version 1 False)) ''https://example.com/a'' ''not-a-url''"
      "sample_props [1]"]
  by (simp add: sample_defs url_rejected_def isValidUrl_def handleSubmit_def url_calls_def
      Let_def)

text \<open>
  Claim C3. An empty draft field is never handed to the URL constructor and never stops
  the submission: with a user resolved, and the other field empty or accepted, exactly
  one query is issued (an update when a version is being edited, an insert otherwise),
  and what it writes for an empty field is \<^verbatim>\<open>null\<close>. No query of \<^verbatim>\<open>handleSubmit\<close>
  writes the empty string for either field.
\<close>

theorem C3_empty_field_written_as_null:
  assumes "auth_getUser E = User uid"
    and "form_preview_url (formData S) = [] \<and> \<not> url_rejected E (form_final_url (formData S))
         \<or> form_final_url (formData S) = [] \<and> \<not> url_rejected E (form_preview_url (formData S))"
  shows "NewURL [] \<notin> set (snd (handleSubmit E P S))
         \<and> length (queries (snd (handleSubmit E P S))) = 1
         \<and> (\<forall>q \<in> set (queries (snd (handleSubmit E P S))).
               (form_preview_url (formData S) = [] \<longrightarrow> written q ''preview_url'' = Some JNull)
               \<and> (form_final_url (formData S) = [] \<longrightarrow> written q ''final_url'' = Some JNull)
               \<and> written q ''preview_url'' \<noteq> Some (JStr [])
               \<and> written q ''final_url'' \<noteq> Some (JStr []))"
proof -
  have p: "\<not> url_rejected E (form_preview_url (formData S))"
    and f: "\<not> url_rejected E (form_final_url (formData S))"
    using assms(2) by (auto simp: not_rejected_empty)
  have calls: "NewURL [] \<notin> set (snd (handleSubmit E P S))"
    by (auto simp: handleSubmit_passed [OF p f] handleSubmit_try_def submit_done_def
        url_calls_def Let_def split: auth_result.splits option.splits)
  show ?thesis
  proof (cases "editingVersion S")
    case None
    show ?thesis
      using calls
      by (simp add: queries_handleSubmit_create [OF p f assms(1) None] written_def
          insert_query_def or_null_def)
  next
    case (Some v)
    show ?thesis
      using calls
      by (simp add: queries_handleSubmit_update [OF p f assms(1) Some] written_def
          update_query_def or_null_def)
  qed
qed

theorem C3_empty_field_written_as_null_witness:
  "queries (snd (handleSubmit (sample_env (User ''u1'') True) (sample_props [])
              (sample_state None ''https://example.com/a'' [])))
     = [\<lparr>collection = ''video_versions'', operation = OpInsert, where_sel = None,
         data = Some [(''project_id'', JStr ''p''), (''version_number'', JNum 1),
                      (''preview_url'', JStr ''https://example.com/a''),
                      (''final_url'', JNull), (''uploaded_by'', JStr ''u1''),
                      (''is_approved'', JBool False)]\<rparr>]
   \<and> NewURL [] \<notin> set (snd (handleSubmit (sample_env (User ''u1'') True) (sample_props [])
              (sample_state None ''https://example.com/a'' [])))"
  using C3_empty_field_written_as_null [of "sample_env (User ''u1'') True" "''u1''"
      "sample_state None ''https://example.com/a'' []" "sample_props []"]
  by (simp add: sample_defs url_rejected_def isValidUrl_def handleSubmit_def url_calls_def
      handleSubmit_try_def submit_done_def insert_query_def or_null_def Let_def)

section \<open>Submitting a draft that passed validation\<close>

text \<open>
  Claim C4. When both draft fields pass the validation guards and the authentication
  provider resolves no user, \<^verbatim>\<open>handleSubmit\<close> returns with the component state as it was
  (the dialog as open as before, the draft and \<^verbatim>\<open>editingVersion\<close> untouched), having
  issued no query, shown no notification of either kind, logged nothing and called no
  refresh.
\<close>

theorem C4_no_user_silent_return:
  assumes "\<not> url_rejected E (form_preview_url (formData S))"
    and "\<not> url_rejected E (form_final_url (formData S))"
    and "auth_getUser E = NoUser"
  shows "handleSubmit E P S
           = (S, PreventDefault # url_calls (form_preview_url (formData S))
                   @ url_calls (form_final_url (formData S)) @ [GetUser])
         \<and> queries (snd (handleSubmit E P S)) = []
         \<and> notifications (snd (handleSubmit E P S)) = []
         \<and> OnVersionsUpdate \<notin> set (snd (handleSubmit E P S))"
proof -
  have t: "handleSubmit_try E P S = (S, [GetUser], False)"
    using assms(3) by (simp add: handleSubmit_try_def)
  have h: "handleSubmit E P S
             = (S, PreventDefault # url_calls (form_preview_url (formData S))
                     @ url_calls (form_final_url (formData S)) @ [GetUser])"
    by (simp add: handleSubmit_passed [OF assms(1,2)] t)
  show ?thesis
    unfolding h by (simp add: url_calls_def notifications_def)
qed

theorem C4_no_user_silent_return_witness:
  "handleSubmit (sample_env NoUser True) (sample_props [1])
     (sample_state None ''https://example.com/a'' [])
     = (sample_state None ''https://example.com/a'' [],
        [PreventDefault, NewURL ''https://example.com/a'', GetUser])
   \<and> notifications (snd (handleSubmit (sample_env NoUser True) (sample_props [1])
        (sample_state None ''https://example.com/a'' []))) = []"
  using C4_no_user_silent_return [of "sample_env NoUser True"
      "sample_state None ''https://example.com/a'' []" "sample_props [1]"]
  by (simp add: sample_defs url_rejected_def isValidUrl_def url_calls_def handleSubmit_def
      handleSubmit_try_def notifications_def Let_def)

text \<open>
  Claim C5. When both draft fields pass the validation guards, a user is resolved and
  the write (the update of the edited version, or the insert when none is edited)
  resolves, \<^verbatim>\<open>handleSubmit\<close> ends with the dialog closed, both draft fields empty and
  \<^verbatim>\<open>editingVersion\<close> absent; the first notification is the success message,
  "Version updated successfully" for an update and "New version created successfully"
  for a create; and the refresh callback is called exactly once. (A failure message
  follows the success message only when the callback itself throws.)
\<close>

theorem C5_success_resets_and_refreshes:
  assumes "\<not> url_rejected E (form_preview_url (formData S))"
    and "\<not> url_rejected E (form_final_url (formData S))"
    and "auth_getUser E = User uid"
    and "db_query E (case editingVersion S of
                       Some v \<Rightarrow> update_query E v (formData S)
                     | None \<Rightarrow> insert_query P uid (formData S))"
  shows "fst (handleSubmit E P S)
           = \<lparr>dialogOpen = False, editingVersion = None,
              formData = \<lparr>form_preview_url = [], form_final_url = []\<rparr>\<rparr>
         \<and> notifications (snd (handleSubmit E P S))
           = ToastSuccess (case editingVersion S of
                             Some v \<Rightarrow> ''Version updated successfully''
                           | None \<Rightarrow> ''New version created successfully'')
             # (if onVersionsUpdate_ok E then [] else [ToastError ''Failed to save version''])
         \<and> count_list (snd (handleSubmit E P S)) OnVersionsUpdate = 1"
proof (cases "editingVersion S")
  case None
  with assms(4) have ok: "db_query E (insert_query P uid (formData S))" by simp
  show ?thesis
    using ok None
    by (simp add: handleSubmit_passed [OF assms(1,2)] handleSubmit_try_create [OF assms(3) None]
        submit_done_def notifications_def url_calls_def)
next
  case (Some v)
  with assms(4) have ok: "db_query E (update_query E v (formData S))" by simp
  show ?thesis
    using ok Some
    by (simp add: handleSubmit_passed [OF assms(1,2)] handleSubmit_try_update [OF assms(3) Some]
        submit_done_def notifications_def url_calls_def)
qed

theorem C5_success_resets_and_refreshes_witness:
  "handleSubmit (sample_env (User ''u1'') True) (sample_props [1])
     (sample_state (Some (sample_version 1 False)) ''https://example.com/a'' ''https://example.com/b'')
     = (\<lparr>dialogOpen = False, editingVersion = None,
         formData = \<lparr>form_preview_url = [], form_final_url = []\<rparr>\<rparr>,
        [PreventDefault, NewURL ''https://example.com/a'', NewURL ''https://example.com/b'',
         GetUser,
         DbQuery \<lparr>collection = ''video_versions'', operation = OpUpdate,
                  where_sel = Some [(''id'', JStr ''v'')],
                  data = Some [(''preview_url'', JStr ''https://example.com/a''),
                               (''final_url'', JStr ''https://example.com/b''),
                               (''updated_at'', JStr ''2024-01-01T00:00:00.000Z'')]\<rparr>,
         ToastSuccess ''Version updated successfully'', OnVersionsUpdate])
   \<and> notifications (snd (handleSubmit (sample_env (User ''u1'') True) (sample_props [1])
        (sample_state None ''https://example.com/a'' [])))
     = [ToastSuccess ''New version created successfully'']
   \<and> count_list (snd (handleSubmit (sample_env (User ''u1'') True) (sample_props [1])
        (sample_state None ''https://example.com/a'' []))) OnVersionsUpdate = 1"
  using C5_success_resets_and_refreshes [of "sample_env (User ''u1'') True"
      "sample_state (Some (sample_version 1 False)) ''https://example.com/a'' ''https://example.com/b''"
      "''u1''" "sample_props [1]"]
    C5_success_resets_and_refreshes [of "sample_env (User ''u1'') True"
      "sample_state None ''https://example.com/a'' []" "''u1''" "sample_props [1]"]
  by (simp add: sample_defs url_rejected_def isValidUrl_def handleSubmit_def url_calls_def
      handleSubmit_try_def submit_done_def update_query_def or_null_def Let_def)

text \<open>
  Claim C6. When both draft fields pass the validation guards, a user is resolved and
  the write (update or insert) rejects, \<^verbatim>\<open>handleSubmit\<close> leaves the component state as it
  was (the dialog as open as before, the draft and \<^verbatim>\<open>editingVersion\<close> untouched), shows
  the one notification "Failed to save version", and does not call the refresh callback.
\<close>

theorem C6_failure_keeps_draft:
  assumes "\<not> url_rejected E (form_preview_url (formData S))"
    and "\<not> url_rejected E (form_final_url (formData S))"
    and "auth_getUser E = User uid"
    and "\<not> db_query E (case editingVersion S of
                         Some v \<Rightarrow> update_query E v (formData S)
                       | None \<Rightarrow> insert_query P uid (formData S))"
  shows "fst (handleSubmit E P S) = S
         \<and> notifications (snd (handleSubmit E P S)) = [ToastError ''Failed to save version'']
         \<and> OnVersionsUpdate \<notin> set (snd (handleSubmit E P S))
         \<and> queries (snd (handleSubmit E P S))
           = [case editingVersion S of
                Some v \<Rightarrow> update_query E v (formData S)
              | None \<Rightarrow> insert_query P uid (formData S)]"
proof (cases "editingVersion S")
  case None
  with assms(4) have bad: "\<not> db_query E (insert_query P uid (formData S))" by simp
  show ?thesis
    using bad None
    by (simp add: handleSubmit_passed [OF assms(1,2)] handleSubmit_try_create [OF assms(3) None]
        notifications_def url_calls_def)
next
  case (Some v)
  with assms(4) have bad: "\<not> db_query E (update_query E v (formData S))" by simp
  show ?thesis
    using bad Some
    by (simp add: handleSubmit_passed [OF assms(1,2)] handleSubmit_try_update [OF assms(3) Some]
        notifications_def url_calls_def)
qed

theorem C6_failure_keeps_draft_witness:
  "handleSubmit (sample_env (User ''u1'') False) (sample_props [])
     (sample_state None ''https://example.com/a'' [])
     = (sample_state None ''https://example.com/a'' [],
        [PreventDefault, NewURL ''https://example.com/a'', GetUser,
         DbQuery \<lparr>collection = ''video_versions'', operation = OpInsert, where_sel = None,
                  data = Some [(''project_id'', JStr ''p''), (''version_number'', JNum 1),
                               (''preview_url'', JStr ''https://example.com/a''),
                               (''final_url'', JNull), (''uploaded_by'', JStr ''u1''),
                               (''is_approved'', JBool False)]\<rparr>,
         ConsoleError ''Error saving version:'', ToastError ''Failed to save version''])
   \<and> notifications (snd (handleSubmit (sample_env (User ''u1'') False) (sample_props [])
        (sample_state None ''https://example.com/a'' [])))
     = [ToastError ''Failed to save version'']"
  using C6_failure_keeps_draft [of "sample_env (User ''u1'') False"
      "sample_state None ''https://example.com/a'' []" "''u1''" "sample_props []"]
  by (simp add: sample_defs url_rejected_def isValidUrl_def handleSubmit_def url_calls_def
      handleSubmit_try_def insert_query_def or_null_def Let_def)

section \<open>What the writes contain\<close>

text \<open>
  Claim C7, evaluated on the approve operation. Approving the version with id \<^verbatim>\<open>v\<close>
  issues one update whose payload is the single key \<^verbatim>\<open>is_approved\<close>; the update writes
  no \<^verbatim>\<open>updated_at\<close>, while the update of the edit path, on the same collaborators, does.
\<close>

theorem C7_approve_writes_no_updated_at:
  "queries (handleApprove (sample_env (User ''u1'') True) ''v'')
     = [\<lparr>collection = ''video_versions'', operation = OpUpdate,
         where_sel = Some [(''id'', JStr ''v'')],
         data = Some [(''is_approved'', JBool True)]\<rparr>]
   \<and> map (\<lambda>q. written q ''updated_at'')
       (queries (handleApprove (sample_env (User ''u1'') True) ''v'')) = [None]
   \<and> map (\<lambda>q. written q ''updated_at'')
       (queries (snd (handleSubmit (sample_env (User ''u1'') True) (sample_props [1])
          (sample_state (Some (sample_version 1 False)) ''https://example.com/a'' []))))
     = [Some (JStr ''2024-01-01T00:00:00.000Z'')]"
  by (simp add: handleApprove_def approve_query_def written_def sample_defs handleSubmit_def
      handleSubmit_try_def submit_done_def update_query_def url_rejected_def isValidUrl_def
      url_calls_def or_null_def Let_def)

text \<open>
  Claim C8. With both draft fields past the validation guards and a user resolved,
  \<^verbatim>\<open>handleSubmit\<close> issues exactly one query. When a version is being edited it is an
  update selected by that version's id, whose payload has the keys \<^verbatim>\<open>preview_url\<close>,
  \<^verbatim>\<open>final_url\<close> and \<^verbatim>\<open>updated_at\<close> and no others (so it writes no \<^verbatim>\<open>is_approved\<close>),
  with \<^verbatim>\<open>updated_at\<close> the current time. Otherwise it is an insert with no selector that
  writes \<^verbatim>\<open>is_approved = false\<close> and \<^verbatim>\<open>uploaded_by\<close> = the resolved user's id.
\<close>

theorem C8_update_and_create_payloads:
  assumes "\<not> url_rejected E (form_preview_url (formData S))"
    and "\<not> url_rejected E (form_final_url (formData S))"
    and "auth_getUser E = User uid"
  shows "length (queries (snd (handleSubmit E P S))) = 1
         \<and> (\<forall>q \<in> set (queries (snd (handleSubmit E P S))).
               collection q = ''video_versions''
               \<and> (\<forall>v. editingVersion S = Some v \<longrightarrow>
                     operation q = OpUpdate
                     \<and> where_sel q = Some [(''id'', JStr (id_v v))]
                     \<and> written_keys q = [''preview_url'', ''final_url'', ''updated_at'']
                     \<and> written q ''updated_at'' = Some (JStr (Date_now E))
                     \<and> written q ''is_approved'' = None)
               \<and> (editingVersion S = None \<longrightarrow>
                     operation q = OpInsert
                     \<and> where_sel q = None
                     \<and> written q ''is_approved'' = Some (JBool False)
                     \<and> written q ''uploaded_by'' = Some (JStr uid)))"
proof (cases "editingVersion S")
  case None
  show ?thesis
    using None
    by (simp add: queries_handleSubmit_create [OF assms None] insert_query_def written_def)
next
  case (Some v)
  show ?thesis
    using Some
    by (simp add: queries_handleSubmit_update [OF assms Some] update_query_def written_def
        written_keys_def)
qed

theorem C8_update_and_create_payloads_witness:
  "queries (snd (handleSubmit (sample_env (User ''u1'') True) (sample_props [1])
     (sample_state (Some (sample_version 1 True)) [] ''https://example.com/b'')))
     = [\<lparr>collection = ''video_versions'', operation = OpUpdate,
         where_sel = Some [(''id'', JStr ''v'')],
         data = Some [(''preview_url'', JNull),
                      (''final_url'', JStr ''https://example.com/b''),
                      (''updated_at'', JStr ''2024-01-01T00:00:00.000Z'')]\<rparr>]
   \<and> queries (snd (handleSubmit (sample_env (User ''u1'') True) (sample_props [1])
     (sample_state None [] ''https://example.com/b'')))
     = [\<lparr>collection = ''video_versions'', operation = OpInsert, where_sel = None,
         data = Some [(''project_id'', JStr ''p''), (''version_number'', JNum 2),
                      (''preview_url'', JNull),
                      (''final_url'', JStr ''https://example.com/b''),
                      (''uploaded_by'', JStr ''u1''), (''is_approved'', JBool False)]\<rparr>]"
proof -
  let ?E = "sample_env (User ''u1'') True"
  let ?U = "sample_state (Some (sample_version 1 True)) [] ''https://example.com/b''"
  let ?C = "sample_state None [] ''https://example.com/b''"
  have h: "\<not> url_rejected ?E []" "\<not> url_rejected ?E ''https://example.com/b''"
      "auth_getUser ?E = User ''u1''"
    by (simp_all add: sample_defs url_rejected_def isValidUrl_def)
  have u: "length (queries (snd (handleSubmit ?E (sample_props [1]) ?U))) = 1"
    by (rule conjunct1 [OF C8_update_and_create_payloads [of ?E ?U "''u1''"]])
      (simp_all add: h sample_state_def)
  have c: "length (queries (snd (handleSubmit ?E (sample_props [1]) ?C))) = 1"
    by (rule conjunct1 [OF C8_update_and_create_payloads [of ?E ?C "''u1''"]])
      (simp_all add: h sample_state_def)
  from u c show ?thesis
    by (simp add: sample_defs url_rejected_def isValidUrl_def handleSubmit_def url_calls_def
        handleSubmit_try_def submit_done_def update_query_def insert_query_def or_null_def
        Math_max_def js_add_def double_round_def Let_def)
qed

section \<open>The approve button\<close>

text \<open>
  Claim C9. The table has one row for each supplied version, in order, with the
  actions of that version. In every row, an approve button is among the row's actions
  exactly when the row's version is not approved and the acting user's role is
  \<^verbatim>\<open>client\<close>; the button then approves that row's version. A row of an approved version
  has none, whatever the role.
\<close>

theorem C9_approve_button_rendered_iff:
  "map fst (table_rows P) = versions P
   \<and> (\<forall>(v, acts) \<in> set (table_rows P).
         ((\<exists>i. ApproveButton i \<in> set acts)
            \<longleftrightarrow> (\<not> is_approved v \<and> userRole P = Some ''client''))
         \<and> (\<forall>i. ApproveButton i \<in> set acts \<longrightarrow> i = id_v v)
         \<and> (is_approved v \<longrightarrow> (\<forall>i. ApproveButton i \<notin> set acts))
         \<and> acts = row_actions P v)"
proof -
  have rows: "table_rows P = map (\<lambda>v. (v, row_actions P v)) (versions P)"
    by (simp add: table_rows_def)
  have fsts: "map fst (table_rows P) = versions P"
    unfolding rows by (simp add: comp_def)
  have each: "\<forall>(v, acts) \<in> set (table_rows P).
         ((\<exists>i. ApproveButton i \<in> set acts)
            \<longleftrightarrow> (\<not> is_approved v \<and> userRole P = Some ''client''))
         \<and> (\<forall>i. ApproveButton i \<in> set acts \<longrightarrow> i = id_v v)
         \<and> (is_approved v \<longrightarrow> (\<forall>i. ApproveButton i \<notin> set acts))
         \<and> acts = row_actions P v"
    unfolding rows by (auto simp: row_actions_def)
  from fsts each show ?thesis by blast
qed

theorem C9_approve_button_rendered_iff_witness:
  "table_rows \<lparr>projectId = ''p'',
               versions = [sample_version 1 True,
                           (sample_version 2 False)\<lparr>id_v := ''w''\<rparr>,
                           (sample_version 3 False)\<lparr>id_v := ''x''\<rparr>],
               userRole = Some ''client''\<rparr>
     = [(sample_version 1 True,
         [EditButton (sample_version 1 True), DeleteButton ''v'']),
        ((sample_version 2 False)\<lparr>id_v := ''w''\<rparr>,
         [ApproveButton ''w'', EditButton ((sample_version 2 False)\<lparr>id_v := ''w''\<rparr>),
          DeleteButton ''w'']),
        ((sample_version 3 False)\<lparr>id_v := ''x''\<rparr>,
         [ApproveButton ''x'', EditButton ((sample_version 3 False)\<lparr>id_v := ''x''\<rparr>),
          DeleteButton ''x''])]
   \<and> map fst (table_rows \<lparr>projectId = ''p'',
               versions = [sample_version 1 True,
                           (sample_version 2 False)\<lparr>id_v := ''w''\<rparr>,
                           (sample_version 3 False)\<lparr>id_v := ''x''\<rparr>],
               userRole = Some ''client''\<rparr>)
     = [sample_version 1 True, (sample_version 2 False)\<lparr>id_v := ''w''\<rparr>,
        (sample_version 3 False)\<lparr>id_v := ''x''\<rparr>]
   \<and> table_rows \<lparr>projectId = ''p'',
                 versions = [sample_version 1 False,
                             (sample_version 2 False)\<lparr>id_v := ''w''\<rparr>],
                 userRole = Some ''editor''\<rparr>
     = [(sample_version 1 False, [EditButton (sample_version 1 False), DeleteButton ''v'']),
        ((sample_version 2 False)\<lparr>id_v := ''w''\<rparr>,
         [EditButton ((sample_version 2 False)\<lparr>id_v := ''w''\<rparr>), DeleteButton ''w''])]
   \<and> table_rows \<lparr>projectId = ''p'', versions = [], userRole = Some ''client''\<rparr> = []"
proof -
  let ?P = "\<lparr>projectId = ''p'',
             versions = [sample_version 1 True,
                         (sample_version 2 False)\<lparr>id_v := ''w''\<rparr>,
                         (sample_version 3 False)\<lparr>id_v := ''x''\<rparr>],
             userRole = Some ''client''\<rparr>"
  have m: "map fst (table_rows ?P) = versions ?P"
    by (rule conjunct1 [OF C9_approve_button_rendered_iff [of ?P]])
  have ev: "table_rows ?P
     = [(sample_version 1 True,
         [EditButton (sample_version 1 True), DeleteButton ''v'']),
        ((sample_version 2 False)\<lparr>id_v := ''w''\<rparr>,
         [ApproveButton ''w'', EditButton ((sample_version 2 False)\<lparr>id_v := ''w''\<rparr>),
          DeleteButton ''w'']),
        ((sample_version 3 False)\<lparr>id_v := ''x''\<rparr>,
         [ApproveButton ''x'', EditButton ((sample_version 3 False)\<lparr>id_v := ''x''\<rparr>),
          DeleteButton ''x''])]"
    by (simp add: table_rows_def row_actions_def sample_version_def)
  from m ev show ?thesis
    by (simp add: table_rows_def row_actions_def sample_version_def)
qed

section \<open>Order of the validation guards\<close>

text \<open>
  Claim C10. When both draft fields are non-empty strings the URL constructor refuses,
  \<^verbatim>\<open>handleSubmit\<close> calls the constructor once, on the preview field, shows the preview
  error and stops: the final field is not examined and its error is not shown. On every
  submission, at most one of the two validation errors is shown.
\<close>

theorem C10_preview_checked_first:
  "(url_rejected E (form_preview_url (formData S))
      \<and> url_rejected E (form_final_url (formData S))
    \<longrightarrow> snd (handleSubmit E P S)
          = [PreventDefault, NewURL (form_preview_url (formData S)),
             ToastError ''Please enter a valid preview URL'']
        \<and> validation_errors (snd (handleSubmit E P S))
          = [ToastError ''Please enter a valid preview URL''])
   \<and> length (validation_errors (snd (handleSubmit E P S))) \<le> 1"
proof (cases "url_rejected E (form_preview_url (formData S))")
  case True
  then show ?thesis
    by (simp add: handleSubmit_rejected_preview validation_errors_other
        validation_errors_preview)
next
  case p: False
  show ?thesis
  proof (cases "url_rejected E (form_final_url (formData S))")
    case True
    have "validation_errors (snd (handleSubmit E P S))
            = [ToastError ''Please enter a valid final URL'']"
      using validation_errors_append
        [of "url_calls (form_preview_url (formData S))"
            "[NewURL (form_final_url (formData S)), ToastError ''Please enter a valid final URL'']"]
      by (simp add: handleSubmit_rejected_final [OF p True] validation_errors_other
          validation_errors_url_calls validation_errors_final)
    with p show ?thesis by simp
  next
    case False
    obtain S' tr threw where t: "handleSubmit_try E P S = (S', tr, threw)"
      by (cases "handleSubmit_try E P S") auto
    have tr: "validation_errors tr = []"
      using validation_errors_try [of E P S] by (simp add: t)
    have "validation_errors (snd (handleSubmit E P S)) = []"
      by (simp add: handleSubmit_passed [OF p False] t validation_errors_other
          validation_errors_append validation_errors_url_calls validation_errors_catch tr)
    with p show ?thesis by simp
  qed
qed

theorem C10_preview_checked_first_witness:
  "url_rejected (sample_env (User ''u1'') True) ''not-a-url''
   \<and> url_rejected (sample_env (User ''u1'') True) ''also bad''
   \<and> snd (handleSubmit (sample_env (User ''u1'') True) (sample_props [1])
            (sample_state None ''not-a-url'' ''also bad''))
     = [PreventDefault, NewURL ''not-a-url'', ToastError ''Please enter a valid preview URL'']"
  using C10_preview_checked_first [of "sample_env (User ''u1'') True"
      "sample_state None ''not-a-url'' ''also bad''" "sample_props [1]"]
  by (simp add: sample_defs url_rejected_def isValidUrl_def)

end
